theory Spec2Isabelle
  imports Complex_Main
begin

section \<open>The retrying chat-completion helper \<open>call_deepseek_chat\<close>\<close>

text \<open>
  A shallow embedding of \<^verbatim>\<open>src/Model/call_deepseek_chat.py\<close>. The function talks to
  three things outside itself: the process environment (\<^verbatim>\<open>os.getenv\<close>), the HTTP
  transport (\<^verbatim>\<open>requests.post\<close>) and the clock (\<^verbatim>\<open>time.sleep\<close>). The environment
  and the transport are parameters of the model; every transport invocation and every
  sleep is recorded, in order, in an explicit state that is passed through the call.
\<close>

subsection \<open>Data\<close>

text \<open>
  A Python \<^verbatim>\<open>str\<close> is a sequence of code points, so that \<^verbatim>\<open>s[:200]\<close> is
  \<open>take 200 s\<close>. The string literals of the source are embedded with \<open>lit\<close>.
\<close>

type_synonym pystr = "nat list"

definition lit :: "string \<Rightarrow> pystr" where
  "lit s = map of_char s"

text \<open>A message is a \<^verbatim>\<open>Dict[str, str]\<close>, kept as its items in insertion order.\<close>

type_synonym message = "(pystr \<times> pystr) list"

text \<open>
  The values stored in the \<^verbatim>\<open>payload\<close> dictionary. The temperature is a float that
  is only passed on, so its type \<open>'t\<close> is left open.
\<close>

datatype 't pval =
    PStr pystr
  | PMessages "message list"
  | PFloat 't
  | PInt int

type_synonym 't payload = "(pystr \<times> 't pval) list"

text \<open>The keyword arguments of one \<^verbatim>\<open>requests.post\<close> call.\<close>

record 't request =
  post_url :: pystr
  post_headers :: "(pystr \<times> pystr) list"
  post_json :: "'t payload"
  post_timeout :: int

text \<open>
  What the code reads of a \<^verbatim>\<open>requests.Response\<close>: \<^verbatim>\<open>status_code\<close>,
  \<^verbatim>\<open>text\<close> and the outcome of \<^verbatim>\<open>json()\<close>, which is either the decoded value
  (\<open>Inr\<close>) or the exception the decoder raised (\<open>Inl\<close>). \<open>'x\<close> is the type of
  exceptions raised by library code, \<open>'j\<close> the type of decoded JSON values.
\<close>

record ('x, 'j) response =
  status_code :: int
  resp_text :: pystr
  json :: "'x + 'j"

text \<open>
  The exceptions that can leave the function: one raised by the library and propagated
  unchanged, \<^verbatim>\<open>ValueError(msg)\<close> and \<^verbatim>\<open>RuntimeError(msg)\<close> with their
  \<^verbatim>\<open>__cause__\<close> (\<^verbatim>\<open>raise ... from e\<close>), and the \<^verbatim>\<open>requests.HTTPError\<close> of
  \<^verbatim>\<open>raise_for_status\<close>, which carries the response.
\<close>

datatype ('x, 'j) exc =
    Raised 'x
  | ValueError pystr "('x, 'j) exc option"
  | HTTPError "('x, 'j) response"
  | RuntimeError pystr "('x, 'j) exc option"

text \<open>The parameters of \<^verbatim>\<open>call_deepseek_chat\<close>.\<close>

record 't call_args =
  deepseekModelEndpoint :: pystr
  messages :: "message list"
  api_key :: "pystr option"
  model :: pystr
  temperature :: 't
  max_tokens :: int
  timeout_s :: int
  max_retries :: int

text \<open>
  The observable effects of a call, oldest first: each \<^verbatim>\<open>requests.post\<close> with the
  request it was given, and each \<^verbatim>\<open>time.sleep\<close> with its duration.
\<close>

datatype 't event =
    Post "'t request"
  | Sleep int

type_synonym 't world = "'t event list"

fun calls :: "'t world \<Rightarrow> 't request list" where
  "calls [] = []"
| "calls (Post r # w) = r # calls w"
| "calls (Sleep d # w) = calls w"

fun sleeps :: "'t world \<Rightarrow> int list" where
  "sleeps [] = []"
| "sleeps (Post r # w) = sleeps w"
| "sleeps (Sleep d # w) = d # sleeps w"

text \<open>
  The transport answers the \<open>k\<close>-th invocation (counted from 0) on a request either by
  raising (\<open>Inl\<close>) or with a response (\<open>Inr\<close>). The environment maps names to values.
\<close>

type_synonym ('t, 'x, 'j) transport = "nat \<Rightarrow> 't request \<Rightarrow> 'x + ('x, 'j) response"

type_synonym environ = "pystr \<rightharpoonup> pystr"

subsection \<open>Operations\<close>

text \<open>
  Python truthiness of an \<^verbatim>\<open>Optional[str]\<close>: \<^verbatim>\<open>None\<close> and the empty string are
  false. \<^verbatim>\<open>a or b\<close> is \<open>a\<close> when \<open>a\<close> is true and \<open>b\<close> otherwise.
\<close>

definition truthy :: "pystr option \<Rightarrow> bool" where
  "truthy a = (case a of None \<Rightarrow> False | Some s \<Rightarrow> s \<noteq> [])"

definition py_or :: "pystr option \<Rightarrow> pystr option \<Rightarrow> pystr option" where
  "py_or a b = (if truthy a then a else b)"

text \<open>
  \<^verbatim>\<open>min(2 ** (attempt - 1), 8)\<close>; the loop only calls it with \<open>1 \<le> attempt\<close>.
\<close>

definition backoff :: "int \<Rightarrow> int" where
  "backoff attempt = min (2 ^ nat (attempt - 1)) 8"

text \<open>
  \<^verbatim>\<open>Response.raise_for_status\<close> of the requests library raises \<^verbatim>\<open>HTTPError\<close> for
  the status codes 400 to 599 and returns otherwise.
\<close>

definition raise_for_status :: "('x, 'j) response \<Rightarrow> ('x, 'j) exc option" where
  "raise_for_status resp =
     (if 400 \<le> status_code resp \<and> status_code resp < 600 then Some (HTTPError resp) else None)"

definition headers :: "pystr \<Rightarrow> (pystr \<times> pystr) list" where
  "headers key =
     [(lit ''Authorization'', lit ''Bearer '' @ key),
      (lit ''Content-Type'', lit ''application/json''),
      (lit ''Accept'', lit ''application/json'')]"

definition payload :: "'t call_args \<Rightarrow> 't payload" where
  "payload a =
     [(lit ''model'', PStr (model a)),
      (lit ''messages'', PMessages (messages a)),
      (lit ''temperature'', PFloat (temperature a)),
      (lit ''max_tokens'', PInt (max_tokens a))]"

definition post_request :: "'t call_args \<Rightarrow> pystr \<Rightarrow> 't request" where
  "post_request a key =
     \<lparr>post_url = deepseekModelEndpoint a, post_headers = headers key,
      post_json = payload a, post_timeout = timeout_s a\<rparr>"

text \<open>
  The body of the \<^verbatim>\<open>try\<close> block of one attempt. It ends in one of three ways:
  \<^verbatim>\<open>continue\<close> (after the sleep of the retriable-status branch), \<^verbatim>\<open>return\<close>,
  or an exception, which the \<^verbatim>\<open>except Exception\<close> clause of the loop then handles.
  \<^verbatim>\<open>time.sleep\<close> is taken to return normally, and only exceptions that are instances
  of \<^verbatim>\<open>Exception\<close> are modelled (an interrupt of the process is not).
\<close>

datatype ('x, 'j) outcome =
    Continue
  | Return 'j
  | Raise "('x, 'j) exc"

definition retriable_status :: "int \<Rightarrow> bool" where
  "retriable_status s = (s \<in> {429, 500, 502, 503, 504})"

definition try_body ::
  "('t, 'x, 'j) transport \<Rightarrow> 't request \<Rightarrow> int \<Rightarrow> 't world \<Rightarrow> ('x, 'j) outcome \<times> 't world" where
  "try_body tr req attempt w =
     (let w1 = w @ [Post req] in
      case tr (length (calls w)) req of
        Inl x \<Rightarrow> (Raise (Raised x), w1)
      | Inr resp \<Rightarrow>
          if retriable_status (status_code resp)
          then (Continue, w1 @ [Sleep (backoff attempt)])
          else (case raise_for_status resp of
                  Some e \<Rightarrow> (Raise e, w1)
                | None \<Rightarrow>
                    (case json resp of
                       Inr v \<Rightarrow> (Return v, w1)
                     | Inl x \<Rightarrow>
                         (Raise (ValueError
                                   (lit ''Endpoint returned non-JSON: '' @ take 200 (resp_text resp))
                                   (Some (Raised x))), w1))))"

text \<open>
  The \<^verbatim>\<open>for attempt in range(1, max_retries + 1)\<close> loop, by recursion on the attempts
  still to run, with the \<^verbatim>\<open>except Exception\<close> handler and the statement after the loop.
\<close>

fun retry_loop ::
  "('t, 'x, 'j) transport \<Rightarrow> 't request \<Rightarrow> int \<Rightarrow> int list \<Rightarrow> ('x, 'j) exc option \<Rightarrow> 't world
     \<Rightarrow> (('x, 'j) exc + 'j) \<times> 't world" where
  "retry_loop tr req maxr [] last_err w =
     (Inl (RuntimeError (lit ''Request failed'') last_err), w)"
| "retry_loop tr req maxr (attempt # rest) last_err w =
     (case try_body tr req attempt w of
        (Continue, w1) \<Rightarrow> retry_loop tr req maxr rest last_err w1
      | (Return v, w1) \<Rightarrow> (Inr v, w1)
      | (Raise e, w1) \<Rightarrow>
          if attempt < maxr
          then retry_loop tr req maxr rest (Some e) (w1 @ [Sleep (backoff attempt)])
          else (Inl e, w1))"

text \<open>
  The function itself: \<^verbatim>\<open>api_key = api_key or os.getenv("DEEPSEEK_API_KEY")\<close>, the
  check \<^verbatim>\<open>if not api_key: raise ValueError(...)\<close>, which fails both for \<^verbatim>\<open>None\<close>
  and for the empty string, then the headers, the payload and the loop with
  \<^verbatim>\<open>last_err = None\<close>.
\<close>

definition call_deepseek_chat ::
  "environ \<Rightarrow> ('t, 'x, 'j) transport \<Rightarrow> 't call_args \<Rightarrow> 't world \<Rightarrow> (('x, 'j) exc + 'j) \<times> 't world" where
  "call_deepseek_chat env tr a w =
     (case py_or (api_key a) (env (lit ''DEEPSEEK_API_KEY'')) of
        None \<Rightarrow>
          (Inl (ValueError (lit ''Missing api_key. Pass api_key=... or set DEEPSEEK_API_KEY env var.'') None), w)
      | Some key \<Rightarrow>
          if \<not> truthy (Some key)
          then (Inl (ValueError (lit ''Missing api_key. Pass api_key=... or set DEEPSEEK_API_KEY env var.'') None), w)
          else retry_loop tr (post_request a key) (max_retries a) [1..max_retries a] None w)"

subsection \<open>A concrete call\<close>

text \<open>
  The arguments of a call that passes only the endpoint and one message and leaves
  every keyword argument at its default, an environment that holds a key, and
  transports that answer every invocation in the same way.
\<close>

definition example_args :: "real call_args" where
  "example_args =
     \<lparr>deepseekModelEndpoint = lit ''https://api.deepseek.com/v1/chat/completions'',
      messages = [[(lit ''role'', lit ''user''), (lit ''content'', lit ''hi'')]],
      api_key = None,
      model = lit ''deepseek-chat'',
      temperature = 0.7,
      max_tokens = 512,
      timeout_s = 60,
      max_retries = 3\<rparr>"

definition example_env :: environ where
  "example_env = [lit ''DEEPSEEK_API_KEY'' \<mapsto> lit ''sk-test'']"

definition example_request :: "real request" where
  "example_request = post_request example_args (lit ''sk-test'')"

definition always_responds :: "(string, string) response \<Rightarrow> (real, string, string) transport" where
  "always_responds r = (\<lambda>k req. Inr r)"

definition always_raises :: "(real, string, string) transport" where
  "always_raises = (\<lambda>k req. Inl (''connection refused, invocation '' @ replicate k CHR ''I''))"

definition busy_response :: "(string, string) response" where
  "busy_response =
     \<lparr>status_code = 503, resp_text = lit ''Service Unavailable'', json = Inl ''JSONDecodeError''\<rparr>"

definition rate_limited_response :: "(string, string) response" where
  "rate_limited_response =
     \<lparr>status_code = 429, resp_text = lit ''Too Many Requests'', json = Inl ''JSONDecodeError''\<rparr>"

definition ok_response :: "(string, string) response" where
  "ok_response =
     \<lparr>status_code = 200, resp_text = lit ''{}'', json = Inr ''{}''\<rparr>"

definition unauthorized_response :: "(string, string) response" where
  "unauthorized_response =
     \<lparr>status_code = 401, resp_text = lit ''Unauthorized'', json = Inl ''JSONDecodeError''\<rparr>"

definition not_json_response :: "(string, string) response" where
  "not_json_response =
     \<lparr>status_code = 200, resp_text = lit ''not valid json'', json = Inl ''JSONDecodeError''\<rparr>"

definition limited_then_ok :: "nat \<Rightarrow> (real, string, string) transport" where
  "limited_then_ok n = (\<lambda>k req. if k < n then Inr rate_limited_response else Inr ok_response)"

section \<open>Properties\<close>

subsection \<open>Auxiliary facts\<close>

lemma py_or_None [simp]: "py_or None b = b"
  by (simp add: py_or_def truthy_def)

lemma py_or_empty [simp]: "py_or (Some []) b = b"
  by (simp add: py_or_def truthy_def)

lemma calls_append [simp]: "calls (w @ v) = calls w @ calls v"
  by (induction w rule: calls.induct) simp_all

lemma sleeps_append [simp]: "sleeps (w @ v) = sleeps w @ sleeps v"
  by (induction w rule: sleeps.induct) simp_all

text \<open>The events of a run of attempts that each post once and then sleep.\<close>

lemma calls_rounds [simp]:
  "calls (concat (map (\<lambda>a. [Post req, Sleep (f a)]) as)) = replicate (length as) req"
  by (induction as) simp_all

lemma sleeps_rounds [simp]:
  "sleeps (concat (map (\<lambda>a. [Post req, Sleep (f a)]) as)) = map f as"
  by (induction as) simp_all

text \<open>One attempt whose response has a retriable status: post, sleep, \<^verbatim>\<open>continue\<close>.\<close>

lemma try_body_retriable:
  assumes "tr (length (calls w)) req = Inr r" and "retriable_status (status_code r)"
  shows "try_body tr req attempt w = (Continue, w @ [Post req, Sleep (backoff attempt)])"
  using assms by (simp add: try_body_def)

text \<open>One attempt on which the transport raises.\<close>

lemma try_body_raises:
  assumes "tr (length (calls w)) req = Inl x"
  shows "try_body tr req attempt w = (Raise (Raised x), w @ [Post req])"
  using assms by (simp add: try_body_def)

text \<open>
  A run of attempts that all get a retriable status: the loop goes through all of
  them, whatever \<open>maxr\<close> is, and leaves \<open>last_err\<close> as it was.
\<close>

lemma retry_loop_retriable_prefix:
  assumes "\<And>k. k < length as \<Longrightarrow>
             \<exists>r. tr (length (calls w) + k) req = Inr r \<and> retriable_status (status_code r)"
  shows "retry_loop tr req maxr (as @ bs) last_err w =
           retry_loop tr req maxr bs last_err
             (w @ concat (map (\<lambda>a. [Post req, Sleep (backoff a)]) as))"
  using assms
proof (induction as arbitrary: w)
  case Nil
  show ?case by simp
next
  case (Cons a as)
  from Cons.prems [of 0] obtain r
    where r: "tr (length (calls w)) req = Inr r" "retriable_status (status_code r)"
    by auto
  let ?w = "w @ [Post req, Sleep (backoff a)]"
  have step: "retry_loop tr req maxr ((a # as) @ bs) last_err w =
                retry_loop tr req maxr (as @ bs) last_err ?w"
    by (simp add: try_body_retriable [where tr = tr and w = w and req = req, OF r])
  have "\<exists>r. tr (length (calls ?w) + k) req = Inr r \<and> retriable_status (status_code r)"
    if "k < length as" for k
    using Cons.prems [of "Suc k"] that by simp
  from Cons.IH [of ?w, OF this] step show ?case by simp
qed

text \<open>
  A run of attempts on which the transport raises: every attempt below \<open>maxr\<close> is
  followed by a sleep and the next attempt, and the first attempt that is not below
  \<open>maxr\<close> re-raises what the transport raised there.
\<close>

lemma retry_loop_raising_run:
  assumes "\<And>k. k \<le> length as \<Longrightarrow> tr (length (calls w) + k) req = Inl (x (length (calls w) + k))"
    and "\<And>a. a \<in> set as \<Longrightarrow> a < maxr" and "\<not> final < maxr"
  shows "retry_loop tr req maxr (as @ final # bs) last_err w =
           (Inl (Raised (x (length (calls w) + length as))),
            w @ concat (map (\<lambda>a. [Post req, Sleep (backoff a)]) as) @ [Post req])"
  using assms
proof (induction as arbitrary: w last_err)
  case Nil
  from Nil(1) [of 0] show ?case
    using Nil(3) by (simp add: try_body_raises [where tr = tr and w = w and req = req])
next
  case (Cons a as)
  from Cons.prems(1) [of 0] have x0: "tr (length (calls w)) req = Inl (x (length (calls w)))"
    by simp
  from Cons.prems(2) have a: "a < maxr"
    by simp
  let ?w = "w @ [Post req, Sleep (backoff a)]"
  have step: "retry_loop tr req maxr ((a # as) @ final # bs) last_err w =
                retry_loop tr req maxr (as @ final # bs) (Some (Raised (x (length (calls w))))) ?w"
    using a by (simp add: try_body_raises [where tr = tr and w = w and req = req, OF x0])
  have "tr (length (calls ?w) + k) req = Inl (x (length (calls ?w) + k))" if "k \<le> length as" for k
    using Cons.prems(1) [of "Suc k"] that by simp
  from Cons.IH [of ?w, OF this] Cons.prems(2,3) step show ?case
    by simp
qed

lemma lit_eq_iff [simp]: "lit s = lit t \<longleftrightarrow> s = t"
  by (simp add: lit_def inj_map_eq_map [OF inj_of_char])

lemma example_env_key [simp]:
  "example_env (lit ''DEEPSEEK_API_KEY'') = Some (lit ''sk-test'')"
  by (simp add: example_env_def)

lemma upto_1_numeral [simp]: "[1..numeral n] = 1 # [2..numeral n]"
  by (simp add: upto_rec1)

lemma example_args_simps [simp]:
  "api_key example_args = None" "max_retries example_args = 3"
  by (simp_all add: example_args_def)

lemma post_request_api_key [simp]: "post_request (a\<lparr>api_key := k\<rparr>) = post_request a"
  by (rule ext) (simp add: post_request_def payload_def)

lemma post_request_max_retries [simp]: "post_request (a\<lparr>max_retries := m\<rparr>) = post_request a"
  by (rule ext) (simp add: post_request_def payload_def)

lemma lit_sk_test_nonempty [simp]: "lit ''sk-test'' \<noteq> []"
  by (simp add: lit_def)

subsection \<open>The credential check\<close>

text \<open>
  C5. When neither the \<open>api_key\<close> parameter is passed nor the environment variable is
  set, the call raises the \<open>ValueError\<close> for the missing key and leaves the record of
  effects as it found it: started with no recorded events, it ends with no transport
  invocation (and no sleep).
\<close>

theorem missing_credential_no_network:
  assumes "api_key a = None" and "env (lit ''DEEPSEEK_API_KEY'') = None"
  shows "call_deepseek_chat env tr a w =
           (Inl (ValueError (lit ''Missing api_key. Pass api_key=... or set DEEPSEEK_API_KEY env var.'') None), w)
         \<and> calls (snd (call_deepseek_chat env tr a [])) = []"
  using assms by (simp add: call_deepseek_chat_def)

theorem missing_credential_no_network_witness:
  "api_key example_args = None \<and> Map.empty (lit ''DEEPSEEK_API_KEY'') = None
   \<and> call_deepseek_chat Map.empty always_raises example_args [] =
       (Inl (ValueError (lit ''Missing api_key. Pass api_key=... or set DEEPSEEK_API_KEY env var.'') None), [])"
  using missing_credential_no_network [of example_args Map.empty always_raises "[]"]
  by simp

text \<open>
  C8. An \<open>api_key\<close> parameter that is the empty string behaves as no parameter: the call
  is the same as the call without the parameter, so the key is taken from the
  environment variable when that holds a non-empty value, and when the variable is
  unset or empty the call raises the \<open>ValueError\<close> for the missing key with the record
  of effects unchanged, that is, before any transport invocation.
\<close>

theorem empty_api_key_falls_back_to_env:
  "call_deepseek_chat env tr (a\<lparr>api_key := Some []\<rparr>) w =
     call_deepseek_chat env tr (a\<lparr>api_key := None\<rparr>) w
   \<and> (\<forall>key. env (lit ''DEEPSEEK_API_KEY'') = Some key \<and> key \<noteq> [] \<longrightarrow>
        call_deepseek_chat env tr (a\<lparr>api_key := Some []\<rparr>) w =
          retry_loop tr (post_request a key) (max_retries a) [1..max_retries a] None w)
   \<and> (env (lit ''DEEPSEEK_API_KEY'') = None \<or> env (lit ''DEEPSEEK_API_KEY'') = Some [] \<longrightarrow>
        call_deepseek_chat env tr (a\<lparr>api_key := Some []\<rparr>) w =
          (Inl (ValueError (lit ''Missing api_key. Pass api_key=... or set DEEPSEEK_API_KEY env var.'') None), w))"
  by (simp add: call_deepseek_chat_def truthy_def split: option.split)

theorem empty_api_key_falls_back_to_env_witness:
  "call_deepseek_chat Map.empty always_raises (example_args\<lparr>api_key := Some []\<rparr>) [] =
     (Inl (ValueError (lit ''Missing api_key. Pass api_key=... or set DEEPSEEK_API_KEY env var.'') None), [])
   \<and> call_deepseek_chat example_env always_raises (example_args\<lparr>api_key := Some []\<rparr>) [] =
       retry_loop always_raises example_request 3 [1..3] None []"
proof -
  note fallback = empty_api_key_falls_back_to_env [of _ always_raises example_args "[]"]
  have unset: "call_deepseek_chat Map.empty always_raises (example_args\<lparr>api_key := Some []\<rparr>) [] =
      (Inl (ValueError (lit ''Missing api_key. Pass api_key=... or set DEEPSEEK_API_KEY env var.'') None), [])"
    using fallback [of Map.empty, THEN conjunct2, THEN conjunct2] by simp
  have set: "call_deepseek_chat example_env always_raises (example_args\<lparr>api_key := Some []\<rparr>) [] =
      retry_loop always_raises example_request 3 [1..3] None []"
    using fallback [of example_env, THEN conjunct2, THEN conjunct1, rule_format, of "lit ''sk-test''"]
    by (simp add: example_env_def example_request_def)
  from unset set show ?thesis ..
qed

text \<open>
  C10. With \<open>max_retries = 0\<close> and a non-empty key available (from the parameter or the
  environment), the loop body never runs: no transport invocation is made, and the
  call raises \<open>RuntimeError("Request failed")\<close> whose cause is \<open>None\<close>.
\<close>

theorem zero_retries_fails_without_request:
  assumes "max_retries a = 0"
    and "py_or (api_key a) (env (lit ''DEEPSEEK_API_KEY'')) = Some key" and "key \<noteq> []"
  shows "call_deepseek_chat env tr a w = (Inl (RuntimeError (lit ''Request failed'') None), w)
         \<and> calls (snd (call_deepseek_chat env tr a [])) = []"
  using assms by (simp add: call_deepseek_chat_def truthy_def)

theorem zero_retries_fails_without_request_witness:
  "call_deepseek_chat example_env always_raises (example_args\<lparr>max_retries := 0\<rparr>) [] =
     (Inl (RuntimeError (lit ''Request failed'') None), [])"
  using zero_retries_fails_without_request
          [of "example_args\<lparr>max_retries := 0\<rparr>" example_env "lit ''sk-test''" always_raises "[]"]
  by (simp add: example_env_def)

subsection \<open>Retriable statuses\<close>

lemma backoff_upto: "map backoff [1..n] = map (\<lambda>i. min (2 ^ i) 8) [0..<nat n]"
  by (rule nth_equalityI) (simp_all add: backoff_def)

text \<open>
  C3. Whatever the attempt index is and however it compares with \<open>max_retries\<close>, an
  attempt whose response has one of the statuses 429, 500, 502, 503, 504 sleeps
  \<open>min (2 ^ (attempt - 1)) 8\<close> after its request and goes on with the remaining
  attempts, with \<open>last_err\<close> as it was. When all the attempts \<open>1..max_retries\<close> end
  so, the loop runs out and the statement after it raises \<open>RuntimeError("Request failed")\<close>
  from \<open>last_err\<close>. For the whole call with a key available, where \<open>last_err\<close> starts as
  \<open>None\<close> and no attempt has set it, the recorded events are exactly, for each attempt
  from 1 to \<open>max_retries\<close> in turn, one request followed by one sleep of
  \<open>min (2 ^ (attempt - 1)) 8\<close>, the final attempt included, and the call raises that
  \<open>RuntimeError\<close> with cause \<open>None\<close>.
\<close>

theorem retriable_status_sleeps_and_continues:
  "(\<forall>r. tr (length (calls w)) req = Inr r \<and> status_code r \<in> {429, 500, 502, 503, 504} \<longrightarrow>
      retry_loop tr req maxr (attempt # rest) last_err w =
        retry_loop tr req maxr rest last_err
          (w @ [Post req, Sleep (min (2 ^ nat (attempt - 1)) 8)]))
   \<and> ((\<forall>k<nat maxr. \<exists>r. tr (length (calls w) + k) req = Inr r
                          \<and> status_code r \<in> {429, 500, 502, 503, 504}) \<longrightarrow>
        retry_loop tr req maxr [1..maxr] last_err w =
          (Inl (RuntimeError (lit ''Request failed'') last_err),
           w @ concat (map (\<lambda>attempt. [Post req, Sleep (min (2 ^ nat (attempt - 1)) 8)]) [1..maxr])))
   \<and> (py_or (api_key a) (env (lit ''DEEPSEEK_API_KEY'')) = Some key \<and> key \<noteq> []
        \<and> (\<forall>k<nat (max_retries a). \<exists>r. tr k (post_request a key) = Inr r
                          \<and> status_code r \<in> {429, 500, 502, 503, 504}) \<longrightarrow>
        call_deepseek_chat env tr a [] =
          (Inl (RuntimeError (lit ''Request failed'') None),
           concat (map (\<lambda>attempt. [Post (post_request a key),
                                    Sleep (min (2 ^ nat (attempt - 1)) 8)])
                       [1..max_retries a])))"
proof (intro conjI allI impI)
  fix r
  assume "tr (length (calls w)) req = Inr r \<and> status_code r \<in> {429, 500, 502, 503, 504}"
  then have "tr (length (calls w)) req = Inr r" "retriable_status (status_code r)"
    by (simp_all add: retriable_status_def)
  from try_body_retriable [where tr = tr and w = w and req = req, OF this]
  show "retry_loop tr req maxr (attempt # rest) last_err w =
          retry_loop tr req maxr rest last_err
            (w @ [Post req, Sleep (min (2 ^ nat (attempt - 1)) 8)])"
    by (simp add: backoff_def)
next
  assume "\<forall>k<nat maxr. \<exists>r. tr (length (calls w) + k) req = Inr r
            \<and> status_code r \<in> {429, 500, 502, 503, 504}"
  then have "\<exists>r. tr (length (calls w) + k) req = Inr r \<and> retriable_status (status_code r)"
    if "k < length [1..maxr]" for k
    using that by (simp add: retriable_status_def)
  from retry_loop_retriable_prefix
         [where bs = "[]" and as = "[1..maxr]" and tr = tr and w = w and req = req, OF this]
  show "retry_loop tr req maxr [1..maxr] last_err w =
          (Inl (RuntimeError (lit ''Request failed'') last_err),
           w @ concat (map (\<lambda>attempt. [Post req, Sleep (min (2 ^ nat (attempt - 1)) 8)]) [1..maxr]))"
    by (simp add: backoff_def)
next
  let ?req = "post_request a key" and ?m = "max_retries a"
  assume asm: "py_or (api_key a) (env (lit ''DEEPSEEK_API_KEY'')) = Some key \<and> key \<noteq> []
        \<and> (\<forall>k<nat (max_retries a). \<exists>r. tr k (post_request a key) = Inr r
                          \<and> status_code r \<in> {429, 500, 502, 503, 504})"
  then have "\<exists>r. tr (length (calls []) + k) ?req = Inr r \<and> retriable_status (status_code r)"
    if "k < length [1..?m]" for k
    using that by (simp add: retriable_status_def)
  from retry_loop_retriable_prefix
         [where bs = "[]" and as = "[1..?m]" and tr = tr and w = "[]" and req = ?req, OF this]
  have "retry_loop tr ?req ?m [1..?m] None [] =
          (Inl (RuntimeError (lit ''Request failed'') None),
           concat (map (\<lambda>attempt. [Post ?req, Sleep (min (2 ^ nat (attempt - 1)) 8)]) [1..?m]))"
    by (simp add: backoff_def)
  with asm show "call_deepseek_chat env tr a [] =
          (Inl (RuntimeError (lit ''Request failed'') None),
           concat (map (\<lambda>attempt. [Post ?req, Sleep (min (2 ^ nat (attempt - 1)) 8)]) [1..?m]))"
    by (simp add: call_deepseek_chat_def truthy_def)
qed

theorem retriable_status_sleeps_and_continues_witness:
  "retry_loop (always_responds busy_response) example_request 3 [3] (Some (Raised ''timeout'')) [] =
     retry_loop (always_responds busy_response) example_request 3 [] (Some (Raised ''timeout''))
       [Post example_request, Sleep 4]
   \<and> retry_loop (always_responds busy_response) example_request 3 [1..3] None [] =
       (Inl (RuntimeError (lit ''Request failed'') None),
        [Post example_request, Sleep 1, Post example_request, Sleep 2, Post example_request, Sleep 4])
   \<and> call_deepseek_chat example_env (always_responds busy_response) example_args [] =
       (Inl (RuntimeError (lit ''Request failed'') None),
        [Post example_request, Sleep 1, Post example_request, Sleep 2, Post example_request, Sleep 4])"
proof -
  note c3 = retriable_status_sleeps_and_continues
              [where tr = "always_responds busy_response" and w = "[]" and req = example_request
                 and maxr = 3]
  have one: "retry_loop (always_responds busy_response) example_request 3 [3] (Some (Raised ''timeout'')) [] =
     retry_loop (always_responds busy_response) example_request 3 [] (Some (Raised ''timeout''))
       [Post example_request, Sleep 4]"
    using c3 [where attempt = 3 and rest = "[]" and last_err = "Some (Raised ''timeout'')",
              THEN conjunct1, rule_format, of busy_response]
    by (simp add: always_responds_def busy_response_def)
  have all: "retry_loop (always_responds busy_response) example_request 3 [1..3] None [] =
       (Inl (RuntimeError (lit ''Request failed'') None),
        [Post example_request, Sleep 1, Post example_request, Sleep 2, Post example_request, Sleep 4])"
    using c3 [where last_err = None, THEN conjunct2, THEN conjunct1]
    by (simp add: always_responds_def busy_response_def)
  have call: "call_deepseek_chat example_env (always_responds busy_response) example_args [] =
       (Inl (RuntimeError (lit ''Request failed'') None),
        [Post example_request, Sleep 1, Post example_request, Sleep 2, Post example_request, Sleep 4])"
    using c3 [where a = example_args and env = example_env and key = "lit ''sk-test''",
              THEN conjunct2, THEN conjunct2]
    by (simp add: always_responds_def busy_response_def example_request_def)
  from one all call show ?thesis by blast
qed

text \<open>
  C9. With a key available and \<open>max_retries \<ge> 1\<close>, when every attempt gets one of the
  statuses 429, 500, 502, 503, 504 the call makes \<open>max_retries\<close> requests and
  \<open>max_retries\<close> sleeps, of durations 1, 2, 4, 8, 8, ...; the last recorded event is the
  sleep of the final attempt, after which no request follows; and the call then raises
  \<open>RuntimeError("Request failed")\<close> with cause \<open>None\<close>.
\<close>

theorem all_retriable_sleeps_after_final_attempt:
  assumes "py_or (api_key a) (env (lit ''DEEPSEEK_API_KEY'')) = Some key" and "key \<noteq> []"
    and "1 \<le> max_retries a"
    and "\<forall>k<nat (max_retries a). \<exists>r. tr k (post_request a key) = Inr r
            \<and> status_code r \<in> {429, 500, 502, 503, 504}"
  shows "case call_deepseek_chat env tr a [] of
           (res, w') \<Rightarrow>
             res = Inl (RuntimeError (lit ''Request failed'') None)
             \<and> length (calls w') = nat (max_retries a)
             \<and> length (sleeps w') = nat (max_retries a)
             \<and> sleeps w' = map (\<lambda>i. min (2 ^ i) 8) [0..<nat (max_retries a)]
             \<and> last w' = Sleep (min (2 ^ nat (max_retries a - 1)) 8)"
proof -
  let ?req = "post_request a key" and ?m = "max_retries a"
  let ?rounds = "\<lambda>as. concat (map (\<lambda>a. [Post ?req, Sleep (backoff a)]) as)"
  have "\<exists>r. tr (length (calls []) + k) ?req = Inr r \<and> retriable_status (status_code r)"
    if "k < length [1..?m]" for k
    using assms(4) that by (simp add: retriable_status_def)
  from retry_loop_retriable_prefix
         [where bs = "[]" and as = "[1..?m]" and tr = tr and w = "[]" and req = ?req, OF this]
  have "retry_loop tr ?req ?m [1..?m] None [] =
          (Inl (RuntimeError (lit ''Request failed'') None), ?rounds [1..?m])"
    by simp
  with assms(1,2) have call: "call_deepseek_chat env tr a [] =
          (Inl (RuntimeError (lit ''Request failed'') None), ?rounds [1..?m])"
    by (simp add: call_deepseek_chat_def truthy_def)
  have "[1..?m] = [1..?m - 1] @ [?m]"
    using assms(3) by (rule upto_rec2)
  then have "?rounds [1..?m] = ?rounds [1..?m - 1] @ [Post ?req, Sleep (backoff ?m)]"
    by simp
  then have "last (?rounds [1..?m]) = Sleep (min (2 ^ nat (?m - 1)) 8)"
    by (simp add: backoff_def)
  with call show ?thesis
    by (simp add: backoff_upto)
qed

theorem all_retriable_sleeps_after_final_attempt_witness:
  "call_deepseek_chat example_env (always_responds busy_response) example_args [] =
     (Inl (RuntimeError (lit ''Request failed'') None),
      [Post example_request, Sleep 1, Post example_request, Sleep 2, Post example_request, Sleep 4])
   \<and> sleeps (snd (call_deepseek_chat example_env (always_responds busy_response) example_args []))
       = [1, 2, 4]"
proof -
  have eval: "call_deepseek_chat example_env (always_responds busy_response) example_args [] =
     (Inl (RuntimeError (lit ''Request failed'') None),
      [Post example_request, Sleep 1, Post example_request, Sleep 2, Post example_request, Sleep 4])"
    by (simp add: call_deepseek_chat_def truthy_def try_body_def always_responds_def
          busy_response_def retriable_status_def backoff_def example_request_def)
  have "sleeps (snd (call_deepseek_chat example_env (always_responds busy_response) example_args []))
       = map (\<lambda>i. min (2 ^ i) 8) [0..<nat 3]"
    using all_retriable_sleeps_after_final_attempt
            [of example_args example_env "lit ''sk-test''" "always_responds busy_response"]
    by (simp add: always_responds_def busy_response_def split: prod.splits)
  also have "\<dots> = [1, 2, 4 :: int]"
    by (simp add: upt_rec numeral_3_eq_3)
  finally show ?thesis
    using eval by simp
qed

text \<open>One attempt whose response has a status below 400 and a body that decodes.\<close>

lemma try_body_returns:
  assumes "tr (length (calls w)) req = Inr r" and "status_code r = 200" and "json r = Inr v"
  shows "try_body tr req attempt w = (Return v, w @ [Post req])"
  using assms by (simp add: try_body_def retriable_status_def raise_for_status_def)

text \<open>
  C4. With a key available and \<open>1 \<le> N \<le> max_retries\<close>, when the first \<open>N - 1\<close>
  invocations of the transport answer with status 429 and invocation \<open>N\<close> answers
  with status 200 and a body that decodes to \<open>v\<close>, the call returns \<open>v\<close>, the transport
  has been invoked exactly \<open>N\<close> times (each time with the request of this call), and the
  sleeps are the \<open>N - 1\<close> durations \<open>min (2 ^ i) 8\<close> for \<open>i = 0, ..., N - 2\<close>, that is
  1, 2, 4, 8, 8, ...
\<close>

theorem rate_limited_then_success:
  assumes "py_or (api_key a) (env (lit ''DEEPSEEK_API_KEY'')) = Some key" and "key \<noteq> []"
    and "1 \<le> N" and "N \<le> max_retries a"
    and "\<forall>k<nat (N - 1). \<exists>r. tr k (post_request a key) = Inr r \<and> status_code r = 429"
    and "tr (nat (N - 1)) (post_request a key) = Inr r" and "status_code r = 200"
    and "json r = Inr v"
  shows "case call_deepseek_chat env tr a [] of
           (res, w') \<Rightarrow>
             res = Inr v
             \<and> calls w' = replicate (nat N) (post_request a key)
             \<and> length (calls w') = nat N
             \<and> sleeps w' = map (\<lambda>i. min (2 ^ i) 8) [0..<nat (N - 1)]
             \<and> length (sleeps w') = nat (N - 1)"
proof -
  let ?req = "post_request a key" and ?m = "max_retries a"
  let ?w = "concat (map (\<lambda>a. [Post ?req, Sleep (backoff a)]) [1..N - 1])"
  have split: "[1..?m] = [1..N - 1] @ N # [N + 1..?m]"
    using assms(3,4) by (rule upto_split3)
  have "\<exists>r. tr (length (calls []) + k) ?req = Inr r \<and> retriable_status (status_code r)"
    if "k < length [1..N - 1]" for k
    using assms(5) that by (auto simp: retriable_status_def)
  from retry_loop_retriable_prefix
         [where bs = "N # [N + 1..?m]" and as = "[1..N - 1]" and tr = tr and w = "[]"
            and req = ?req, OF this]
  have prefix: "retry_loop tr ?req ?m [1..?m] None [] =
                  retry_loop tr ?req ?m (N # [N + 1..?m]) None ?w"
    using split by simp
  have "tr (length (calls ?w)) ?req = Inr r"
    using assms(6) by simp
  from try_body_returns [where tr = tr and w = ?w and req = ?req, OF this assms(7,8)]
  have "retry_loop tr ?req ?m (N # [N + 1..?m]) None ?w = (Inr v, ?w @ [Post ?req])"
    by simp
  with prefix assms(1,2) have call: "call_deepseek_chat env tr a [] = (Inr v, ?w @ [Post ?req])"
    by (simp add: call_deepseek_chat_def truthy_def)
  have "replicate (nat (N - 1)) ?req @ [?req] = replicate (nat N) ?req"
    using assms(3) by (simp add: replicate_append_same flip: replicate_Suc Suc_nat_eq_nat_zadd1 )
  with call show ?thesis
    using assms(3) by (simp add: backoff_upto)
qed

theorem rate_limited_then_success_witness:
  "fst (call_deepseek_chat example_env (limited_then_ok 2) example_args []) = Inr ''{}''
   \<and> calls (snd (call_deepseek_chat example_env (limited_then_ok 2) example_args [])) =
       [example_request, example_request, example_request]
   \<and> sleeps (snd (call_deepseek_chat example_env (limited_then_ok 2) example_args [])) = [1, 2]"
proof -
  have "(1::int) \<le> 3" and "3 \<le> max_retries example_args"
    by simp_all
  moreover have "\<forall>k<nat (3 - 1). \<exists>r. limited_then_ok 2 k (post_request example_args (lit ''sk-test''))
                   = Inr r \<and> status_code r = 429"
    by (simp add: limited_then_ok_def rate_limited_response_def)
  moreover have "limited_then_ok 2 (nat (3 - 1)) (post_request example_args (lit ''sk-test''))
                   = Inr ok_response"
    and "status_code ok_response = 200" and "json ok_response = Inr ''{}''"
    by (simp_all add: limited_then_ok_def ok_response_def)
  ultimately have "case call_deepseek_chat example_env (limited_then_ok 2) example_args [] of
      (res, w') \<Rightarrow>
        res = Inr ''{}''
        \<and> calls w' = replicate (nat 3) (post_request example_args (lit ''sk-test''))
        \<and> length (calls w') = nat 3
        \<and> sleeps w' = map (\<lambda>i. min (2 ^ i) 8) [0..<nat (3 - 1)]
        \<and> length (sleeps w') = nat (3 - 1)"
    by (intro rate_limited_then_success [where env = example_env and key = "lit ''sk-test''"]) simp_all
  then show ?thesis
    by (simp add: case_prod_beta example_request_def upt_rec numeral_2_eq_2 numeral_3_eq_3)
qed

subsection \<open>Transport failures\<close>

text \<open>
  C6. With a key available and \<open>max_retries = 3\<close>, when the transport raises on each of
  its invocations (\<open>x k\<close> on invocation \<open>k\<close>, counted from 0), the call invokes it exactly
  three times, sleeps 1 between the first and the second attempt and 2 between the
  second and the third, does not sleep after the third, and raises the very exception
  that the transport raised on the third attempt.
\<close>

theorem connection_errors_exhaust_three_attempts:
  assumes "py_or (api_key a) (env (lit ''DEEPSEEK_API_KEY'')) = Some key" and "key \<noteq> []"
    and "max_retries a = 3"
    and "\<forall>k<3. tr k (post_request a key) = Inl (x k)"
  shows "call_deepseek_chat env tr a [] =
           (Inl (Raised (x 2)),
            [Post (post_request a key), Sleep 1, Post (post_request a key), Sleep 2,
             Post (post_request a key)])
         \<and> length (calls (snd (call_deepseek_chat env tr a []))) = 3
         \<and> sleeps (snd (call_deepseek_chat env tr a [])) = [1, 2]"
proof -
  let ?req = "post_request a key"
  have "tr (length (calls []) + k) ?req = Inl (x (length (calls []) + k))"
    if "k \<le> length [1, 2 :: int]" for k
    using assms(4) that by simp
  from retry_loop_raising_run
         [where as = "[1, 2]" and final = 3 and bs = "[]" and maxr = 3 and tr = tr and w = "[]"
            and req = ?req and x = x and last_err = None, OF this]
  have "retry_loop tr ?req 3 ([1, 2] @ [3]) None [] =
          (Inl (Raised (x (length (calls []) + length [1, 2 :: int]))),
           [] @ concat (map (\<lambda>a. [Post ?req, Sleep (backoff a)]) [1, 2]) @ [Post ?req])"
    by fastforce
  then have "retry_loop tr ?req 3 [1, 2, 3] None [] =
          (Inl (Raised (x 2)), [Post ?req, Sleep 1, Post ?req, Sleep 2, Post ?req])"
    by (simp add: backoff_def numeral_2_eq_2 del: retry_loop.simps)
  with assms(1,2,3) have "call_deepseek_chat env tr a [] =
          (Inl (Raised (x 2)), [Post ?req, Sleep 1, Post ?req, Sleep 2, Post ?req])"
    by (simp add: call_deepseek_chat_def truthy_def)
  then show ?thesis
    by simp
qed

theorem connection_errors_exhaust_three_attempts_witness:
  "call_deepseek_chat example_env always_raises example_args [] =
     (Inl (Raised ''connection refused, invocation II''),
      [Post example_request, Sleep 1, Post example_request, Sleep 2, Post example_request])"
  using connection_errors_exhaust_three_attempts
          [of example_args example_env "lit ''sk-test''" always_raises
             "\<lambda>k. ''connection refused, invocation '' @ replicate k CHR ''I''"]
  by (simp add: always_raises_def example_request_def numeral_2_eq_2)

subsection \<open>The request body\<close>

lemma try_body_calls: "calls (snd (try_body tr req attempt w)) = calls w @ [req]"
  by (simp add: try_body_def Let_def split: sum.split option.split)

text \<open>Every request the loop hands to the transport is the one it was given.\<close>

lemma retry_loop_calls:
  "set (calls (snd (retry_loop tr req maxr as last_err w))) \<subseteq> set (calls w) \<union> {req}"
proof (induction as arbitrary: w last_err)
  case Nil
  show ?case by auto
next
  case (Cons a as)
  obtain out w1 where tb: "try_body tr req a w = (out, w1)"
    by (cases "try_body tr req a w")
  with try_body_calls [of tr req a w] have w1: "calls w1 = calls w @ [req]"
    by simp
  show ?case
  proof (cases out)
    case Continue
    with tb w1 Cons.IH [of last_err w1] show ?thesis by auto
  next
    case (Return v)
    with tb w1 show ?thesis by auto
  next
    case (Raise e)
    show ?thesis
    proof (cases "a < maxr")
      case True
      with tb w1 Raise Cons.IH [of "Some e" "w1 @ [Sleep (backoff a)]"] show ?thesis by auto
    next
      case False
      with tb w1 Raise show ?thesis by auto
    qed
  qed
qed

text \<open>
  C7. For all arguments, environments and transports: the payload has exactly the four
  keys \<open>model\<close>, \<open>messages\<close>, \<open>temperature\<close> and \<open>max_tokens\<close>, in this order, holding the
  arguments of the same names; its \<open>messages\<close> entry is the list of messages that was
  passed in, unchanged; and every request that the call hands to the transport carries
  this payload as its JSON body.
\<close>

theorem request_body_is_payload:
  "map fst (payload a) = [lit ''model'', lit ''messages'', lit ''temperature'', lit ''max_tokens'']
   \<and> map snd (payload a) =
       [PStr (model a), PMessages (messages a), PFloat (temperature a), PInt (max_tokens a)]
   \<and> map_of (payload a) (lit ''messages'') = Some (PMessages (messages a))
   \<and> (\<forall>r \<in> set (calls (snd (call_deepseek_chat env tr a []))). post_json r = payload a)"
proof -
  have "post_json r = payload a" if "r \<in> set (calls (snd (call_deepseek_chat env tr a [])))" for r
  proof (cases "py_or (api_key a) (env (lit ''DEEPSEEK_API_KEY''))")
    case None
    with that show ?thesis
      by (simp add: call_deepseek_chat_def)
  next
    case (Some key)
    show ?thesis
    proof (cases "truthy (Some key)")
      case False
      with Some that show ?thesis
        by (simp add: call_deepseek_chat_def)
    next
      case True
      with Some that
      have "r \<in> set (calls (snd (retry_loop tr (post_request a key) (max_retries a)
                                    [1..max_retries a] None [])))"
        by (simp add: call_deepseek_chat_def)
      with retry_loop_calls [of tr "post_request a key" "max_retries a" "[1..max_retries a]" None "[]"]
      have "r = post_request a key"
        by auto
      then show ?thesis
        by (simp add: post_request_def)
    qed
  qed
  then show ?thesis
    by (simp add: payload_def)
qed

theorem request_body_is_payload_witness:
  "example_request \<in> set (calls (snd (call_deepseek_chat example_env always_raises example_args [])))
   \<and> map_of (post_json example_request) (lit ''messages'') =
       Some (PMessages [[(lit ''role'', lit ''user''), (lit ''content'', lit ''hi'')]])
   \<and> map fst (post_json example_request) =
       [lit ''model'', lit ''messages'', lit ''temperature'', lit ''max_tokens'']"
proof -
  note c7 = request_body_is_payload [of example_args example_env always_raises]
  have sent: "example_request \<in> set (calls (snd (call_deepseek_chat example_env always_raises example_args [])))"
    by (simp add: call_deepseek_chat_def truthy_def try_body_def always_raises_def
          example_request_def)
  with c7 have body: "post_json example_request = payload example_args"
    by blast
  from c7 have "map_of (payload example_args) (lit ''messages'') = Some (PMessages (messages example_args))"
    and "map fst (payload example_args) =
           [lit ''model'', lit ''messages'', lit ''temperature'', lit ''max_tokens'']"
    by blast+
  with sent body show ?thesis
    by (simp add: example_args_def)
qed

subsection \<open>Failures that the documentation calls non-retriable\<close>

text \<open>
  C1 asks that a status such as 401 ends the call with the \<open>HTTPError\<close> after exactly one
  transport invocation, and the docstring agrees (retry on 429/5xx/network only;
  \<open>HTTPError\<close> on non-retriable HTTP errors). The code does otherwise:
  \<^verbatim>\<open>raise_for_status\<close> raises inside the \<^verbatim>\<open>try\<close> block, so the handler
  \<^verbatim>\<open>except Exception\<close>, commented as meant for network errors, catches the
  \<open>HTTPError\<close> and retries while \<open>attempt < max_retries\<close>. With the default
  \<open>max_retries = 3\<close> and a transport that always answers 401, the transport is invoked
  three times, with sleeps of 1 and 2 in between, and only the third \<open>HTTPError\<close>
  leaves the call.
\<close>

theorem unauthorized_status_is_retried:
  "call_deepseek_chat example_env (always_responds unauthorized_response) example_args [] =
     (Inl (HTTPError unauthorized_response),
      [Post example_request, Sleep 1, Post example_request, Sleep 2, Post example_request])
   \<and> length (calls (snd (call_deepseek_chat example_env (always_responds unauthorized_response)
                            example_args []))) = 3"
proof -
  have "call_deepseek_chat example_env (always_responds unauthorized_response) example_args [] =
     (Inl (HTTPError unauthorized_response),
      [Post example_request, Sleep 1, Post example_request, Sleep 2, Post example_request])"
    by (simp add: call_deepseek_chat_def truthy_def try_body_def always_responds_def
          retriable_status_def raise_for_status_def backoff_def example_request_def
          unauthorized_response_def)
  then show ?thesis
    by simp
qed

text \<open>
  C2 asks that a response with a success status whose body does not decode ends the
  call with the \<open>ValueError\<close> on that same attempt. The code does otherwise, by the same
  handler as in C1: the \<open>ValueError\<close> is raised inside the \<^verbatim>\<open>try\<close> block and is
  caught and retried while \<open>attempt < max_retries\<close>. With the default \<open>max_retries = 3\<close>
  and a transport that always answers 200 with the body \<open>not valid json\<close>, the transport
  is invoked three times, with sleeps of 1 and 2 in between; the \<open>ValueError\<close> that
  finally leaves the call does carry the first 200 characters of the body.
\<close>

theorem decode_failure_is_retried:
  "call_deepseek_chat example_env (always_responds not_json_response) example_args [] =
     (Inl (ValueError (lit ''Endpoint returned non-JSON: '' @ take 200 (lit ''not valid json''))
            (Some (Raised ''JSONDecodeError''))),
      [Post example_request, Sleep 1, Post example_request, Sleep 2, Post example_request])
   \<and> length (calls (snd (call_deepseek_chat example_env (always_responds not_json_response)
                            example_args []))) = 3"
proof -
  have "call_deepseek_chat example_env (always_responds not_json_response) example_args [] =
     (Inl (ValueError (lit ''Endpoint returned non-JSON: '' @ take 200 (lit ''not valid json''))
            (Some (Raised ''JSONDecodeError''))),
      [Post example_request, Sleep 1, Post example_request, Sleep 2, Post example_request])"
    by (simp add: call_deepseek_chat_def truthy_def try_body_def always_responds_def
          retriable_status_def raise_for_status_def backoff_def example_request_def
          not_json_response_def)
  then show ?thesis
    by simp
qed

end
